theory Spec2Isabelle
  imports Main "HOL-Library.Log_Nat"
begin

section \<open>The process state, the external world and Python's exceptions\<close>

text \<open>
  The scripts of the repository are glue code over four client libraries. The model
  makes every effect explicit: a call into a library is an event appended to a trace,
  its outcome (returns or raises) is given by the world, an exception is a value of
  \<open>exn\<close>, and the attribute of a client object that holds its connection lives in a
  store indexed by the object's address. Of the calls to the logger only the error lines
  of the scripts' handlers are events; the other log lines write text and never decide
  what happens next, and are not modelled.
\<close>

datatype service = Trino | Postgres | Redis | MinIO

text \<open>The \<open>params\<close> argument of PostgresClient: None, one tuple, or a list of tuples.\<close>

datatype params = NoParams | Tuple "string list" | Batch "string list list"

text \<open>
  The library operations the clients call: the constructor of the connection
  (\<open>trino.dbapi.connect\<close>, \<open>psycopg2.connect\<close>, \<open>redis.Redis\<close>, \<open>Minio\<close>), and the
  methods of the connection and of its cursor.
\<close>

datatype op =
    Connect
  | SetAutocommit
  | Cursor
  | Execute string params
  | ExecuteMany string "string list list"
  | Fetchall
  | Commit
  | Rollback
  | Close
  | Ping
  | BucketExists string
  | StatObject string string
  | FputObject string string string
  | FgetObject string string string
  | ListObjects string string
  | RemoveObject string string

text \<open>
  The exceptions (all of them subclasses of Exception): \<open>LibError\<close> is what a library
  call raised, \<open>ClientError\<close> what a method of a client object passed to a script
  raised.
\<close>

datatype exn =
    ImportError service
  | LibError service op
  | ClientError string string
  | AttributeError string
  | KeyError string
  | TypeError
  | ValueError
  | ZeroDivisionError

text \<open>What a call of a script's entry point comes to: it returns, exits, or raises.\<close>

datatype outcome = Returned | Exited int | Raised exn

text \<open>
  The values of a result row, and a row: a mapping from column names (what the scripts
  subscript by name) or a tuple.
\<close>

datatype pyval = PyNone | PyInt int | PyFloat rat | PyStr string

datatype pyrow = RowDict "(string \<times> pyval) list" | RowTuple "pyval list"

text \<open>
  An event of the trace: a client object was constructed at an address, a client
  constructor raised, a library operation was called and returned (True) or raised
  (False), a method of a client object that is not one of this repository's classes was
  invoked with a statement and returned or raised, a handler of a script logged an error,
  the console printed a line or a panel.
\<close>

datatype event =
    Init service nat
  | InitFailed service
  | Ext service op bool
  | Invoke string string bool
  | LogError string exn
  | Print string
  | PrintPanel string

text \<open>
  The world: whether the library call that would be the n-th event succeeds, which
  libraries could be imported (\<open>trino is None\<close> and its siblings in clients.py),
  the rows a \<open>fetchall\<close> returns, the object names a \<open>list_objects\<close> returns,
  \<open>settings.minio_bucket\<close>; what the methods of a client object passed to a script
  answer when they are the n-th event (None: \<open>execute\<close> returns); the raw value of the
  n-th draw from the random module; Python's \<open>repr\<close> of a float, the day number of
  \<open>datetime.now()\<close> and \<open>strftime('%Y-%m-%d')\<close> of a day number.
\<close>

record world =
  call_ok :: "nat \<Rightarrow> service \<Rightarrow> op \<Rightarrow> bool"
  lib_installed :: "service \<Rightarrow> bool"
  fetched_rows :: "nat \<Rightarrow> string list list"
  listed_objects :: "nat \<Rightarrow> string list"
  minio_bucket :: string
  duck_execute :: "nat \<Rightarrow> string \<Rightarrow> exn option"
  duck_fetchone :: "nat \<Rightarrow> string \<Rightarrow> exn + pyrow option"
  duck_fetchall :: "nat \<Rightarrow> string \<Rightarrow> exn + pyrow list"
  rnd :: "nat \<Rightarrow> nat"
  float_repr :: "rat \<Rightarrow> string"
  now_day :: int
  format_date :: "int \<Rightarrow> string"

text \<open>
  The state: the trace, the store with one heap for each client class
  (\<open>conn_attr s svc a\<close> is the \<open>_conn\<close> or \<open>_client\<close> attribute of the client object
  of that class at address \<open>a\<close>; a connection is named by the position of its
  \<open>Connect\<close> event), the next free address, the four attributes
  \<open>_trino\<close>, \<open>_postgres\<close>, \<open>_redis\<close>, \<open>_minio\<close> of the ClientManager, and the number
  of draws made from the random module.
\<close>

record sys =
  trace :: "event list"
  conn_attr :: "service \<Rightarrow> nat \<Rightarrow> nat option"
  next_addr :: nat
  cm_trino :: "nat option"
  cm_postgres :: "nat option"
  cm_redis :: "nat option"
  cm_minio :: "nat option"
  rng_pos :: nat

type_synonym 'a py = "sys \<Rightarrow> (exn + 'a) \<times> sys"

definition py_return :: "'a \<Rightarrow> 'a py" where
  "py_return x s = (Inr x, s)"

definition py_raise :: "exn \<Rightarrow> 'a py" where
  "py_raise e s = (Inl e, s)"

definition py_bind :: "'a py \<Rightarrow> ('a \<Rightarrow> 'b py) \<Rightarrow> 'b py" where
  "py_bind m f s = (case m s of (Inl e, s') \<Rightarrow> (Inl e, s') | (Inr x, s') \<Rightarrow> f x s')"

text \<open>\<open>try: m except Exception as e: h e\<close>\<close>

definition py_try :: "'a py \<Rightarrow> (exn \<Rightarrow> 'a py) \<Rightarrow> 'a py" where
  "py_try m h s = (case m s of (Inl e, s') \<Rightarrow> h e s' | (Inr x, s') \<Rightarrow> (Inr x, s'))"

definition ext :: "world \<Rightarrow> service \<Rightarrow> op \<Rightarrow> unit py" where
  "ext w svc c s =
     (let b = call_ok w (length (trace s)) svc c;
          s' = s\<lparr>trace := trace s @ [Ext svc c b]\<rparr>
      in if b then (Inr (), s') else (Inl (LibError svc c), s'))"

definition set_conn_attr :: "service \<Rightarrow> nat \<Rightarrow> nat option \<Rightarrow> unit py" where
  "set_conn_attr svc self v s =
     (Inr (), s\<lparr>conn_attr := (conn_attr s)(svc := (conn_attr s svc)(self := v))\<rparr>)"

text \<open>The events a run appended to the trace.\<close>

definition new_events :: "sys \<Rightarrow> sys \<Rightarrow> event list" where
  "new_events s s' = drop (length (trace s)) (trace s')"

section \<open>clients.py: the four clients\<close>

text \<open>
  The four constructors have one shape: raise ImportError when the library is missing,
  otherwise set the connection attribute to None.
\<close>

definition new_client :: "world \<Rightarrow> service \<Rightarrow> nat py" where
  "new_client w svc s =
     (if lib_installed w svc
      then (let a = next_addr s
            in (Inr a, s\<lparr>trace := trace s @ [Init svc a],
                         conn_attr := (conn_attr s)(svc := (conn_attr s svc)(a := None)),
                         next_addr := Suc a\<rparr>))
      else (Inl (ImportError svc), s\<lparr>trace := trace s @ [InitFailed svc]\<rparr>))"

definition TrinoClient_init :: "world \<Rightarrow> nat py" where
  "TrinoClient_init w = new_client w Trino"

definition PostgresClient_init :: "world \<Rightarrow> nat py" where
  "PostgresClient_init w = new_client w Postgres"

definition RedisClient_init :: "world \<Rightarrow> nat py" where
  "RedisClient_init w = new_client w Redis"

definition MinIOClient_init :: "world \<Rightarrow> nat py" where
  "MinIOClient_init w = new_client w MinIO"

subsection \<open>MinIOClient\<close>

definition MinIOClient_client :: "world \<Rightarrow> nat \<Rightarrow> nat py" where
  "MinIOClient_client w self s =
     (case conn_attr s MinIO self of
        Some h \<Rightarrow> py_return h s
      | None \<Rightarrow>
          (let h = length (trace s)
           in py_try
                (py_bind (ext w MinIO Connect) (\<lambda>_.
                 py_bind (set_conn_attr MinIO self (Some h)) (\<lambda>_.
                 py_bind (ext w MinIO (BucketExists (minio_bucket w))) (\<lambda>_.
                 py_return h))))
                (\<lambda>e. py_raise e) s))"







subsection \<open>TrinoClient\<close>

definition fetchall :: "world \<Rightarrow> service \<Rightarrow> string list list py" where
  "fetchall w svc s =
     py_bind (ext w svc Fetchall) (\<lambda>_. py_return (fetched_rows w (length (trace s)))) s"

definition TrinoClient_conn :: "world \<Rightarrow> nat \<Rightarrow> nat py" where
  "TrinoClient_conn w self s =
     (case conn_attr s Trino self of
        Some h \<Rightarrow> py_return h s
      | None \<Rightarrow>
          (let h = length (trace s)
           in py_try
                (py_bind (ext w Trino Connect) (\<lambda>_.
                 py_bind (set_conn_attr Trino self (Some h)) (\<lambda>_.
                 py_return h)))
                (\<lambda>e. py_raise e) s))"

definition TrinoClient_execute_query :: "world \<Rightarrow> nat \<Rightarrow> string \<Rightarrow> string list list py" where
  "TrinoClient_execute_query w self query =
     py_try
       (py_bind (TrinoClient_conn w self) (\<lambda>_.
        py_bind (ext w Trino Cursor) (\<lambda>_.
        py_bind (ext w Trino (Execute query NoParams)) (\<lambda>_.
        fetchall w Trino))))
       (\<lambda>e. py_raise e)"

text \<open>\<open>if self._conn:\<close> a connection object is truthy, None is not.\<close>

definition TrinoClient_close :: "world \<Rightarrow> nat \<Rightarrow> unit py" where
  "TrinoClient_close w self s =
     (case conn_attr s Trino self of
        Some h \<Rightarrow>
          py_try
            (py_bind (ext w Trino Close) (\<lambda>_. set_conn_attr Trino self None))
            (\<lambda>e. py_return ()) s
      | None \<Rightarrow> py_return () s)"

subsection \<open>PostgresClient\<close>

definition PostgresClient_conn :: "world \<Rightarrow> nat \<Rightarrow> nat py" where
  "PostgresClient_conn w self s =
     (case conn_attr s Postgres self of
        Some h \<Rightarrow> py_return h s
      | None \<Rightarrow>
          (let h = length (trace s)
           in py_try
                (py_bind (ext w Postgres Connect) (\<lambda>_.
                 py_bind (set_conn_attr Postgres self (Some h)) (\<lambda>_.
                 py_bind (ext w Postgres SetAutocommit) (\<lambda>_.
                 py_return h))))
                (\<lambda>e. py_raise e) s))"

text \<open>
  The handler of both methods reads \<open>self.conn\<close> again before it rolls back, so it
  connects when the client has no connection yet.
\<close>

definition rollback_and_reraise :: "world \<Rightarrow> nat \<Rightarrow> exn \<Rightarrow> 'a py" where
  "rollback_and_reraise w self e =
     py_bind (PostgresClient_conn w self) (\<lambda>_.
     py_bind (ext w Postgres Rollback) (\<lambda>_.
     py_raise e))"

text \<open>The \<open>try\<close> block of \<open>execute_query\<close>, and the method.\<close>

definition query_body :: "world \<Rightarrow> nat \<Rightarrow> string \<Rightarrow> params \<Rightarrow> string list list py" where
  "query_body w self query ps =
     py_bind (PostgresClient_conn w self) (\<lambda>_.
     py_bind (ext w Postgres Cursor) (\<lambda>_.
     py_bind (ext w Postgres (Execute query ps)) (\<lambda>_.
     fetchall w Postgres)))"

definition PostgresClient_execute_query :: "world \<Rightarrow> nat \<Rightarrow> string \<Rightarrow> params \<Rightarrow> string list list py" where
  "PostgresClient_execute_query w self query ps =
     py_try (query_body w self query ps) (rollback_and_reraise w self)"



definition PostgresClient_close :: "world \<Rightarrow> nat \<Rightarrow> unit py" where
  "PostgresClient_close w self s =
     (case conn_attr s Postgres self of
        Some h \<Rightarrow>
          py_try
            (py_bind (ext w Postgres Close) (\<lambda>_. set_conn_attr Postgres self None))
            (\<lambda>e. py_return ()) s
      | None \<Rightarrow> py_return () s)"

subsection \<open>RedisClient\<close>

definition RedisClient_client :: "world \<Rightarrow> nat \<Rightarrow> nat py" where
  "RedisClient_client w self s =
     (case conn_attr s Redis self of
        Some h \<Rightarrow> py_return h s
      | None \<Rightarrow>
          (let h = length (trace s)
           in py_try
                (py_bind (ext w Redis Connect) (\<lambda>_.
                 py_bind (set_conn_attr Redis self (Some h)) (\<lambda>_.
                 py_bind (ext w Redis Ping) (\<lambda>_.
                 py_return h))))
                (\<lambda>e. py_raise e) s))"

section \<open>clients.py: ClientManager\<close>

definition set_cm_trino :: "nat option \<Rightarrow> unit py" where
  "set_cm_trino v s = (Inr (), s\<lparr>cm_trino := v\<rparr>)"

definition set_cm_postgres :: "nat option \<Rightarrow> unit py" where
  "set_cm_postgres v s = (Inr (), s\<lparr>cm_postgres := v\<rparr>)"

definition set_cm_redis :: "nat option \<Rightarrow> unit py" where
  "set_cm_redis v s = (Inr (), s\<lparr>cm_redis := v\<rparr>)"

definition set_cm_minio :: "nat option \<Rightarrow> unit py" where
  "set_cm_minio v s = (Inr (), s\<lparr>cm_minio := v\<rparr>)"

text \<open>\<open>ClientManager.__init__\<close>: the four attributes are None.\<close>

definition ClientManager_init :: "sys \<Rightarrow> sys" where
  "ClientManager_init s =
     s\<lparr>cm_trino := None, cm_postgres := None, cm_redis := None, cm_minio := None\<rparr>"

definition ClientManager_trino :: "world \<Rightarrow> nat py" where
  "ClientManager_trino w s =
     (case cm_trino s of
        None \<Rightarrow> py_bind (TrinoClient_init w) (\<lambda>c.
                py_bind (set_cm_trino (Some c)) (\<lambda>_. py_return c)) s
      | Some c \<Rightarrow> py_return c s)"

definition ClientManager_postgres :: "world \<Rightarrow> nat py" where
  "ClientManager_postgres w s =
     (case cm_postgres s of
        None \<Rightarrow> py_bind (PostgresClient_init w) (\<lambda>c.
                py_bind (set_cm_postgres (Some c)) (\<lambda>_. py_return c)) s
      | Some c \<Rightarrow> py_return c s)"

definition ClientManager_redis :: "world \<Rightarrow> nat py" where
  "ClientManager_redis w s =
     (case cm_redis s of
        None \<Rightarrow> py_bind (RedisClient_init w) (\<lambda>c.
                py_bind (set_cm_redis (Some c)) (\<lambda>_. py_return c)) s
      | Some c \<Rightarrow> py_return c s)"

definition ClientManager_minio :: "world \<Rightarrow> nat py" where
  "ClientManager_minio w s =
     (case cm_minio s of
        None \<Rightarrow> py_bind (MinIOClient_init w) (\<lambda>c.
                py_bind (set_cm_minio (Some c)) (\<lambda>_. py_return c)) s
      | Some c \<Rightarrow> py_return c s)"

text \<open>The bodies of the four \<open>try\<close> blocks of \<open>health_check\<close>.\<close>

definition check_trino :: "world \<Rightarrow> unit py" where
  "check_trino w =
     py_bind (ClientManager_trino w) (\<lambda>c.
     py_bind (TrinoClient_execute_query w c ''SELECT 1'') (\<lambda>_. py_return ()))"

definition check_postgres :: "world \<Rightarrow> unit py" where
  "check_postgres w =
     py_bind (ClientManager_postgres w) (\<lambda>c.
     py_bind (PostgresClient_execute_query w c ''SELECT 1'' NoParams) (\<lambda>_. py_return ()))"

definition check_redis :: "world \<Rightarrow> unit py" where
  "check_redis w =
     py_bind (ClientManager_redis w) (\<lambda>c.
     py_bind (RedisClient_client w c) (\<lambda>_.
     ext w Redis Ping))"

definition check_minio :: "world \<Rightarrow> unit py" where
  "check_minio w =
     py_bind (ClientManager_minio w) (\<lambda>c.
     py_bind (MinIOClient_client w c) (\<lambda>_.
     ext w MinIO (BucketExists (minio_bucket w))))"

definition ClientManager_health_check :: "world \<Rightarrow> (string \<rightharpoonup> bool) py" where
  "ClientManager_health_check w =
     py_bind (py_return Map.empty) (\<lambda>health.
     py_bind (py_try (py_bind (check_trino w) (\<lambda>_. py_return (health(''trino'' \<mapsto> True))))
                     (\<lambda>e. py_return (health(''trino'' \<mapsto> False)))) (\<lambda>health.
     py_bind (py_try (py_bind (check_postgres w) (\<lambda>_. py_return (health(''postgres'' \<mapsto> True))))
                     (\<lambda>e. py_return (health(''postgres'' \<mapsto> False)))) (\<lambda>health.
     py_bind (py_try (py_bind (check_redis w) (\<lambda>_. py_return (health(''redis'' \<mapsto> True))))
                     (\<lambda>e. py_return (health(''redis'' \<mapsto> False)))) (\<lambda>health.
     py_bind (py_try (py_bind (check_minio w) (\<lambda>_. py_return (health(''minio'' \<mapsto> True))))
                     (\<lambda>e. py_return (health(''minio'' \<mapsto> False)))) (\<lambda>health.
     py_return health)))))"

definition ClientManager_close_all :: "world \<Rightarrow> unit py" where
  "ClientManager_close_all w =
     py_bind (\<lambda>s. case cm_trino s of
                     Some c \<Rightarrow> py_bind (TrinoClient_close w c) (\<lambda>_. set_cm_trino None) s
                   | None \<Rightarrow> py_return () s) (\<lambda>_.
     py_bind (\<lambda>s. case cm_postgres s of
                     Some c \<Rightarrow> py_bind (PostgresClient_close w c) (\<lambda>_. set_cm_postgres None) s
                   | None \<Rightarrow> py_return () s) (\<lambda>_.
     py_bind (\<lambda>s. case cm_redis s of
                     Some c \<Rightarrow> set_cm_redis None s
                   | None \<Rightarrow> py_return () s) (\<lambda>_.
             (\<lambda>s. case cm_minio s of
                     Some c \<Rightarrow> set_cm_minio None s
                   | None \<Rightarrow> py_return () s))))"

section \<open>Observations on traces and states\<close>




text \<open>
  What closing a cached client does to the trace: one \<open>Close\<close> on its connection when it
  has one, nothing otherwise; \<open>n\<close> is the position the event takes.
\<close>

definition close_events :: "world \<Rightarrow> service \<Rightarrow> nat option \<Rightarrow> sys \<Rightarrow> nat \<Rightarrow> event list" where
  "close_events w svc cached s n =
     (case cached of
        None \<Rightarrow> []
      | Some c \<Rightarrow> (case conn_attr s svc c of
                     None \<Rightarrow> []
                   | Some h \<Rightarrow> [Ext svc Close (call_ok w n svc Close)]))"

text \<open>The four properties of the ClientManager by service, and runs of accesses to them.\<close>

fun prop_access :: "world \<Rightarrow> service \<Rightarrow> nat py" where
  "prop_access w Trino = ClientManager_trino w"
| "prop_access w Postgres = ClientManager_postgres w"
| "prop_access w Redis = ClientManager_redis w"
| "prop_access w MinIO = ClientManager_minio w"

fun slot :: "service \<Rightarrow> sys \<Rightarrow> nat option" where
  "slot Trino s = cm_trino s"
| "slot Postgres s = cm_postgres s"
| "slot Redis s = cm_redis s"
| "slot MinIO s = cm_minio s"

text \<open>
  A caller reads the properties in the order \<open>xs\<close>, going on after an access that raised:
  the results in order, and the final state.
\<close>

fun accesses :: "world \<Rightarrow> service list \<Rightarrow> sys \<Rightarrow> (exn + nat) list \<times> sys" where
  "accesses w [] s = ([], s)"
| "accesses w (x # xs) s =
     (case prop_access w x s of (r, s') \<Rightarrow>
        (case accesses w xs s' of (rs, s'') \<Rightarrow> (r # rs, s'')))"

text \<open>The addresses of the clients of a service that a trace constructed, in order.\<close>

definition inits :: "service \<Rightarrow> event list \<Rightarrow> nat list" where
  "inits svc es =
     concat (map (\<lambda>e. case e of Init v a \<Rightarrow> if v = svc then [a] else [] | _ \<Rightarrow> []) es)"

text \<open>The results of the accesses to one service, in order.\<close>

definition results_for :: "service \<Rightarrow> service list \<Rightarrow> (exn + nat) list \<Rightarrow> (exn + nat) list" where
  "results_for svc xs rs = map snd (filter (\<lambda>p. fst p = svc) (zip xs rs))"





text \<open>
  Concrete inputs: the state of a process that has just created its ClientManager, a
  world where everything works, and worlds where one thing does not.
\<close>

definition fresh :: sys where
  "fresh = \<lparr>trace = [], conn_attr = (\<lambda>_ _. None), next_addr = 0,
            cm_trino = None, cm_postgres = None, cm_redis = None, cm_minio = None,
            rng_pos = 0\<rparr>"

definition world_all_up :: world where
  "world_all_up = \<lparr>call_ok = (\<lambda>_ _ _. True), lib_installed = (\<lambda>_. True),
     fetched_rows = (\<lambda>_. []), listed_objects = (\<lambda>_. []), minio_bucket = ''warehouse'',
     duck_execute = (\<lambda>_ _. None), duck_fetchone = (\<lambda>_ _. Inr None),
     duck_fetchall = (\<lambda>_ _. Inr []), rnd = (\<lambda>_. 0), float_repr = (\<lambda>_. ''0.0''),
     now_day = 0, format_date = (\<lambda>_. ''1970-01-01'')\<rparr>"

definition world_no_connect :: world where
  "world_no_connect = world_all_up\<lparr>call_ok := (\<lambda>_ _ c. c \<noteq> Connect)\<rparr>"

definition world_no_trino_lib :: world where
  "world_no_trino_lib = world_all_up\<lparr>lib_installed := (\<lambda>v. v \<noteq> Trino)\<rparr>"

text \<open>The call that would be event number \<open>k\<close> raises, every other call returns.\<close>

definition world_fail_at :: "nat \<Rightarrow> world" where
  "world_fail_at k = world_all_up\<lparr>call_ok := (\<lambda>n _ _. n \<noteq> k)\<rparr>"

text \<open>
  The state a health check leaves when everything works: four clients cached, each with
  its connection, after 19 events. In \<open>world_fail_at 20\<close> the second call after that
  raises.
\<close>

definition after_health_check :: sys where
  "after_health_check = snd (ClientManager_health_check (world_fail_at 20) fresh)"

section \<open>Python values: integer formatting and floats\<close>

definition nl :: string where
  "nl = [CHR 0x0A]"

definition sq :: string where
  "sq = [CHR 0x27]"

text \<open>\<open>str\<close> of an integer, and the format \<open>{n:0wd}\<close> of a non-negative one.\<close>

function str_nat :: "nat \<Rightarrow> string" where
  "str_nat n =
     (if n < 10 then [''0123456789'' ! n]
      else str_nat (n div 10) @ [''0123456789'' ! (n mod 10)])"
  by pat_completeness auto
termination
  by (relation "measure id") auto

definition str_int :: "int \<Rightarrow> string" where
  "str_int i = (if i < 0 then ''-'' @ str_nat (nat (- i)) else str_nat (nat i))"

definition zero_pad :: "nat \<Rightarrow> nat \<Rightarrow> string" where
  "zero_pad width n = replicate (width - length (str_nat n)) (CHR ''0'') @ str_nat n"

definition join :: "string \<Rightarrow> string list \<Rightarrow> string" where
  "join sep xs = (case xs of [] \<Rightarrow> [] | y # ys \<Rightarrow> y @ concat (map (\<lambda>x. sep @ x) ys))"

text \<open>
  A float is modelled by its exact value, a rational. \<open>fl\<close> rounds a rational to the
  nearest double (53 significant bits, ties to even); overflow and subnormal numbers are
  not modelled, the values of the scripts lie between \<open>2 ^ - 50\<close> and \<open>2 ^ 14\<close>.
  \<open>expo x\<close> is the exponent \<open>e\<close> with \<open>2 ^ e \<le> x < 2 ^ (e + 1)\<close> for positive \<open>x\<close>.
\<close>

definition pow2 :: "int \<Rightarrow> rat" where
  "pow2 e = (if 0 \<le> e then 2 ^ nat e else 1 / 2 ^ nat (- e))"

definition round_half_even :: "rat \<Rightarrow> int" where
  "round_half_even x =
     (let f = \<lfloor>x\<rfloor>; d = x - of_int f
      in if d < 1 / 2 then f
         else if 1 / 2 < d then f + 1
         else if even f then f else f + 1)"

definition expo :: "rat \<Rightarrow> int" where
  "expo x =
     (let e0 = bitlen (fst (quotient_of x)) - bitlen (snd (quotient_of x))
      in if x < pow2 e0 then e0 - 1 else e0)"

definition fl :: "rat \<Rightarrow> rat" where
  "fl x =
     (if x = 0 then 0
      else (let u = pow2 (expo \<bar>x\<bar> - 52)
            in sgn x * of_int (round_half_even (\<bar>x\<bar> / u)) * u))"

text \<open>
  \<open>round(x, 2)\<close> of a float: the exact value is rounded to two decimals, ties to even,
  and the decimal is read back as the nearest double.
\<close>

definition py_round2 :: "rat \<Rightarrow> rat" where
  "py_round2 x = fl (of_int (round_half_even (x * 100)) / 100)"

text \<open>Float multiplication and addition: the exact result, rounded.\<close>

definition fmul :: "rat \<Rightarrow> rat \<Rightarrow> rat" where
  "fmul x y = fl (x * y)"

definition fadd :: "rat \<Rightarrow> rat \<Rightarrow> rat" where
  "fadd x y = fl (x + y)"

section \<open>The random module\<close>

text \<open>
  A draw takes the next raw value of the world. \<open>random()\<close> is a multiple of
  \<open>2 ^ - 53\<close> in \<open>[0, 1)\<close>, \<open>uniform(a, b)\<close> is \<open>a + (b - a) * random()\<close> in floats,
  \<open>randint(a, b)\<close> and \<open>choice\<close> pick by the raw value.
\<close>

definition draw :: "world \<Rightarrow> nat py" where
  "draw w s = (Inr (rnd w (rng_pos s)), s\<lparr>rng_pos := Suc (rng_pos s)\<rparr>)"

definition random_random :: "world \<Rightarrow> rat py" where
  "random_random w = py_bind (draw w) (\<lambda>k. py_return (of_nat (k mod 2 ^ 53) / 2 ^ 53))"

definition random_uniform :: "world \<Rightarrow> rat \<Rightarrow> rat \<Rightarrow> rat py" where
  "random_uniform w a b =
     py_bind (random_random w) (\<lambda>r. py_return (fadd a (fmul (fl (b - a)) r)))"

definition random_randint :: "world \<Rightarrow> int \<Rightarrow> int \<Rightarrow> int py" where
  "random_randint w a b =
     py_bind (draw w) (\<lambda>k. py_return (a + int k mod (b - a + 1)))"

definition random_choice :: "world \<Rightarrow> 'a list \<Rightarrow> 'a py" where
  "random_choice w xs = py_bind (draw w) (\<lambda>k. py_return (xs ! (k mod length xs)))"

section \<open>create\_iceberg\_table.py\<close>

text \<open>A row of the dataframe, with the columns in the order of the record of the script.\<close>

record order =
  order_id :: string
  product_name :: string
  category :: string
  quantity :: int
  unit_price :: rat
  region :: string
  order_date :: int
  customer_id :: string
  total_amount :: rat

definition products :: "string list" where
  "products = [''Laptop'', ''Smartphone'', ''Tablet'', ''Headphones'', ''Keyboard'',
               ''Mouse'', ''Monitor'', ''Speaker'', ''Camera'', ''Watch'']"

definition categories :: "string list" where
  "categories = [''Electronics'', ''Computers'', ''Accessories'', ''Audio'', ''Photography'']"

definition regions :: "string list" where
  "regions = [''US'', ''EU'', ''ASIA'', ''LATAM'', ''AFRICA'']"

text \<open>
  The record of index \<open>i\<close>: seven draws, in the order of the dictionary display, then
  the derived field.
\<close>

definition make_record :: "world \<Rightarrow> nat \<Rightarrow> order py" where
  "make_record w i =
     py_bind (random_choice w products) (\<lambda>p.
     py_bind (random_choice w categories) (\<lambda>c.
     py_bind (random_randint w 1 10) (\<lambda>q.
     py_bind (random_uniform w 10 1000) (\<lambda>u.
     py_bind (random_choice w regions) (\<lambda>r.
     py_bind (random_randint w 0 365) (\<lambda>d.
     py_bind (random_randint w 1 1000) (\<lambda>k.
     py_return
       \<lparr>order_id = ''ORD-'' @ zero_pad 6 (i + 1),
        product_name = p,
        category = c,
        quantity = q,
        unit_price = py_round2 u,
        region = r,
        order_date = now_day w - 365 + d,
        customer_id = ''CUST-'' @ zero_pad 4 (nat k),
        total_amount = py_round2 (fmul (of_int q) (py_round2 u))\<rparr>)))))))"

text \<open>\<open>for i in range(num_records)\<close>, from \<open>i\<close> on, \<open>n\<close> records to go.\<close>

fun records_from :: "world \<Rightarrow> nat \<Rightarrow> nat \<Rightarrow> order list py" where
  "records_from w i 0 = py_return []"
| "records_from w i (Suc n) =
     py_bind (make_record w i) (\<lambda>r.
     py_bind (records_from w (Suc i) n) (\<lambda>rs. py_return (r # rs)))"

definition generate_sample_data :: "world \<Rightarrow> int \<Rightarrow> order list py" where
  "generate_sample_data w num_records = records_from w 0 (nat num_records)"

text \<open>
  The client a script is given: an object of the class TrinoClient of clients.py, at its
  address, or any other object with the methods \<open>execute\<close>, \<open>fetchone\<close>, \<open>fetchall\<close>
  and \<open>close\<close>, answered by the world (the tests pass a Mock). The class TrinoClient
  defines \<open>conn\<close>, \<open>execute_query\<close>, \<open>execute_with_description\<close>,
  \<open>create_iceberg_table\<close>, \<open>show_tables\<close>, \<open>describe_table\<close> and \<open>close\<close>, and its
  objects have the attribute \<open>_conn\<close>: reading any other attribute raises
  AttributeError. None of the three methods the scripts call on their client is a
  method of that class with the call's arguments, so the branch after a successful
  lookup is a TypeError that no run reaches.
\<close>

datatype client = TrinoClientAt nat | Duck

definition TrinoClient_attributes :: "string list" where
  "TrinoClient_attributes =
     [''_conn'', ''conn'', ''execute_query'', ''execute_with_description'',
      ''create_iceberg_table'', ''show_tables'', ''describe_table'', ''close'']"

text \<open>
  Reading the attribute \<open>name\<close> of a TrinoClient object, before anything is called.
\<close>

definition TrinoClient_getattr :: "string \<Rightarrow> unit py" where
  "TrinoClient_getattr name =
     (if name \<in> set TrinoClient_attributes then py_return ()
      else py_raise (AttributeError name))"

definition invoke :: "string \<Rightarrow> string \<Rightarrow> (exn + 'a) \<Rightarrow> 'a py" where
  "invoke method sql answer s =
     (answer, s\<lparr>trace := trace s @ [Invoke method sql (\<not> isl answer)]\<rparr>)"

definition client_execute :: "world \<Rightarrow> client \<Rightarrow> string \<Rightarrow> unit py" where
  "client_execute w c sql s =
     (case c of
        TrinoClientAt a \<Rightarrow>
          py_bind (TrinoClient_getattr ''execute'') (\<lambda>_. py_raise TypeError) s
      | Duck \<Rightarrow>
          invoke ''execute'' sql
            (case duck_execute w (length (trace s)) sql of None \<Rightarrow> Inr () | Some e \<Rightarrow> Inl e) s)"

definition client_fetchone :: "world \<Rightarrow> client \<Rightarrow> string \<Rightarrow> pyrow option py" where
  "client_fetchone w c sql s =
     (case c of
        TrinoClientAt a \<Rightarrow>
          py_bind (TrinoClient_getattr ''fetchone'') (\<lambda>_. py_raise TypeError) s
      | Duck \<Rightarrow> invoke ''fetchone'' sql (duck_fetchone w (length (trace s)) sql) s)"

definition client_fetchall :: "world \<Rightarrow> client \<Rightarrow> string \<Rightarrow> pyrow list py" where
  "client_fetchall w c sql s =
     (case c of
        TrinoClientAt a \<Rightarrow>
          py_bind (TrinoClient_getattr ''fetchall'') (\<lambda>_. py_raise TypeError) s
      | Duck \<Rightarrow> invoke ''fetchall'' sql (duck_fetchall w (length (trace s)) sql) s)"

definition client_close :: "world \<Rightarrow> client \<Rightarrow> unit py" where
  "client_close w c =
     (case c of
        TrinoClientAt a \<Rightarrow> TrinoClient_close w a
      | Duck \<Rightarrow> invoke ''close'' [] (Inr ()))"

definition log_error :: "string \<Rightarrow> exn \<Rightarrow> unit py" where
  "log_error msg e s = (Inr (), s\<lparr>trace := trace s @ [LogError msg e]\<rparr>)"

definition create_table_sql :: "string \<Rightarrow> string \<Rightarrow> string" where
  "create_table_sql schema table_name = concat
     [nl,
      ''    CREATE TABLE IF NOT EXISTS iceberg.'', schema, ''.'', table_name, '' ('', nl,
      ''        order_id VARCHAR,'', nl,
      ''        product_name VARCHAR,'', nl,
      ''        category VARCHAR,'', nl,
      ''        quantity INTEGER,'', nl,
      ''        unit_price DECIMAL(10,2),'', nl,
      ''        total_amount DECIMAL(10,2),'', nl,
      ''        region VARCHAR,'', nl,
      ''        order_date DATE,'', nl,
      ''        customer_id VARCHAR'', nl,
      ''    ) WITH ('', nl,
      ''        format = '', sq, ''PARQUET'', sq, '','', nl,
      ''        location = '', sq, ''s3://warehouse/'', schema, ''/'', table_name, ''/'', sq, nl,
      ''    )'', nl,
      ''    '']"

definition create_iceberg_table :: "world \<Rightarrow> client \<Rightarrow> string \<Rightarrow> string \<Rightarrow> unit py" where
  "create_iceberg_table w trino_client table_name schema =
     py_try (client_execute w trino_client (create_table_sql schema table_name))
       (\<lambda>e. py_bind (log_error ''Failed to create table'' e) (\<lambda>_. py_raise e))"

text \<open>The tuple of one row in the VALUES clause, and the INSERT statement of a batch.\<close>

definition values_tuple :: "world \<Rightarrow> order \<Rightarrow> string" where
  "values_tuple w row = concat
     [''('', sq, order_id row, sq, '', '', sq, product_name row, sq, '', '', sq, category row, sq,
      '', '', str_int (quantity row), '', '', float_repr w (unit_price row), '', '',
      float_repr w (total_amount row), '', '', sq, region row, sq, '', DATE '', sq,
      format_date w (order_date row), sq, '', '', sq, customer_id row, sq, '')'']"

definition insert_sql :: "world \<Rightarrow> string \<Rightarrow> string \<Rightarrow> order list \<Rightarrow> string" where
  "insert_sql w schema table_name batch_df = concat
     [nl,
      ''        INSERT INTO iceberg.'', schema, ''.'', table_name, nl,
      ''        VALUES '', join '', '' (map (values_tuple w) batch_df), nl,
      ''        '']"

text \<open>
  \<open>for i in range(0, len(df), batch_size)\<close> with a positive step, from \<open>i\<close> on: the
  slice \<open>df.iloc[i:i + batch_size]\<close> is inserted; an \<open>execute\<close> that raises is logged
  and raised again, which ends the loop.
\<close>

function insert_batches ::
  "world \<Rightarrow> client \<Rightarrow> order list \<Rightarrow> string \<Rightarrow> string \<Rightarrow> nat \<Rightarrow> nat \<Rightarrow> unit py" where
  "insert_batches w trino_client df table_name schema batch_size i s =
     (if 0 < batch_size \<and> i < length df
      then (case py_try
                   (client_execute w trino_client
                      (insert_sql w schema table_name (take batch_size (drop i df))))
                   (\<lambda>e. py_bind (log_error (''Failed to insert batch '' @
                                             str_nat (i div batch_size + 1)) e)
                           (\<lambda>_. py_raise e)) s of
              (Inl e, s') \<Rightarrow> (Inl e, s')
            | (Inr _, s') \<Rightarrow>
                insert_batches w trino_client df table_name schema batch_size (i + batch_size) s')
      else (Inr (), s))"
  by pat_completeness auto
termination
  by (relation "measure (\<lambda>(w, c, df, t, sch, b, i, s). length df - i)") auto

text \<open>
  \<open>total_batches\<close> divides by the batch size before the loop: 0 raises
  ZeroDivisionError. A range with a negative step from 0 is empty.
\<close>

definition insert_data_batch ::
  "world \<Rightarrow> client \<Rightarrow> order list \<Rightarrow> string \<Rightarrow> string \<Rightarrow> int \<Rightarrow> unit py" where
  "insert_data_batch w trino_client df table_name schema batch_size =
     (if batch_size = 0 then py_raise ZeroDivisionError
      else if batch_size < 0 then py_return ()
      else insert_batches w trino_client df table_name schema (nat batch_size) 0)"

text \<open>
  Subscripting a row by a column name, and \<open>dict(row)\<close>: a tuple has no named columns,
  and only the empty tuple converts to a dictionary.
\<close>

definition row_get :: "pyrow \<Rightarrow> string \<Rightarrow> pyval py" where
  "row_get row key =
     (case row of
        RowDict kvs \<Rightarrow> (case map_of kvs key of None \<Rightarrow> py_raise (KeyError key)
                        | Some v \<Rightarrow> py_return v)
      | RowTuple vs \<Rightarrow> py_raise TypeError)"

definition row_dict :: "pyrow \<Rightarrow> unit py" where
  "row_dict row =
     (case row of
        RowDict kvs \<Rightarrow> py_return ()
      | RowTuple vs \<Rightarrow> if vs = [] then py_return () else py_raise TypeError)"

fun for_each :: "('a \<Rightarrow> unit py) \<Rightarrow> 'a list \<Rightarrow> unit py" where
  "for_each f [] = py_return ()"
| "for_each f (x # xs) = py_bind (f x) (\<lambda>_. for_each f xs)"

definition count_sql :: "string \<Rightarrow> string \<Rightarrow> string" where
  "count_sql schema table_name =
     ''SELECT COUNT(*) as row_count FROM iceberg.'' @ schema @ ''.'' @ table_name"

definition sample_sql :: "string \<Rightarrow> string \<Rightarrow> string" where
  "sample_sql schema table_name =
     ''SELECT * FROM iceberg.'' @ schema @ ''.'' @ table_name @ '' LIMIT 5''"

definition agg_sql :: "string \<Rightarrow> string \<Rightarrow> string" where
  "agg_sql schema table_name = concat
     [nl,
      ''    SELECT '', nl,
      ''        category,'', nl,
      ''        COUNT(*) as order_count,'', nl,
      ''        SUM(total_amount) as total_revenue,'', nl,
      ''        AVG(total_amount) as avg_order_value'', nl,
      ''    FROM iceberg.'', schema, ''.'', table_name, nl,
      ''    GROUP BY category'', nl,
      ''    ORDER BY total_revenue DESC'', nl,
      ''    '']"

definition verify_data :: "world \<Rightarrow> client \<Rightarrow> string \<Rightarrow> string \<Rightarrow> unit py" where
  "verify_data w trino_client table_name schema =
     py_bind (client_fetchone w trino_client (count_sql schema table_name)) (\<lambda>result.
     py_bind (case result of None \<Rightarrow> py_raise TypeError
              | Some row \<Rightarrow> row_get row ''row_count'') (\<lambda>_.
     py_bind (client_fetchall w trino_client (sample_sql schema table_name)) (\<lambda>sample_data.
     py_bind (for_each row_dict sample_data) (\<lambda>_.
     py_bind (client_fetchall w trino_client (agg_sql schema table_name)) (\<lambda>agg_results.
     for_each row_dict agg_results)))))"

text \<open>
  The \<open>try\<close> block of \<open>main\<close> after the client was constructed, and \<open>main\<close>: an
  exception is logged and the script exits with status 1; the \<open>finally\<close> clause closes
  the client when the variable \<open>trino_client\<close> was bound.
\<close>

definition main_body :: "world \<Rightarrow> client \<Rightarrow> unit py" where
  "main_body w trino_client =
     py_bind (client_execute w trino_client ''CREATE SCHEMA IF NOT EXISTS iceberg.sales'') (\<lambda>_.
     py_bind (generate_sample_data w 2000) (\<lambda>df.
     py_bind (create_iceberg_table w trino_client ''ecommerce_orders'' ''sales'') (\<lambda>_.
     py_bind (insert_data_batch w trino_client df ''ecommerce_orders'' ''sales'' 200) (\<lambda>_.
     verify_data w trino_client ''ecommerce_orders'' ''sales''))))"

definition main :: "world \<Rightarrow> sys \<Rightarrow> outcome \<times> sys" where
  "main w s =
     (case TrinoClient_init w s of
        (Inl e, s1) \<Rightarrow> (Exited 1, snd (log_error ''Script failed with error'' e s1))
      | (Inr a, s1) \<Rightarrow>
          (case py_try (main_body w (TrinoClientAt a))
                  (\<lambda>e. py_bind (log_error ''Script failed with error'' e) (\<lambda>_. py_raise e)) s1 of
             (r, s2) \<Rightarrow>
               (case client_close w (TrinoClientAt a) s2 of
                  (Inl e', s3) \<Rightarrow> (Raised e', s3)
                | (Inr _, s3) \<Rightarrow> (if isl r then Exited 1 else Returned, s3))))"

section \<open>analyze\_data.py\<close>

text \<open>
  The format \<open>{v:.2f}\<close>: numbers have it, None raises TypeError and a string
  ValueError. \<open>if stats:\<close> is False for None and for an empty row; \<open>stats.items()\<close>
  needs a mapping.
\<close>

definition fmt_2f :: "pyval \<Rightarrow> unit py" where
  "fmt_2f v = (case v of PyNone \<Rightarrow> py_raise TypeError | PyStr _ \<Rightarrow> py_raise ValueError
               | _ \<Rightarrow> py_return ())"

definition truthy :: "pyrow \<Rightarrow> bool" where
  "truthy row = (case row of RowDict kvs \<Rightarrow> kvs \<noteq> [] | RowTuple vs \<Rightarrow> vs \<noteq> [])"

definition row_items :: "pyrow \<Rightarrow> unit py" where
  "row_items row = (case row of RowDict kvs \<Rightarrow> py_return ()
                    | RowTuple vs \<Rightarrow> py_raise (AttributeError ''items''))"

text \<open>
  The log line of one row: the columns are read in the order of the f-string, each as
  \<open>(name, True)\<close> when it is formatted with \<open>.2f\<close>.
\<close>

fun fmt_columns :: "(string \<times> bool) list \<Rightarrow> pyrow \<Rightarrow> unit py" where
  "fmt_columns [] row = py_return ()"
| "fmt_columns ((key, two_f) # cols) row =
     py_bind (row_get row key) (\<lambda>v.
     py_bind (if two_f then fmt_2f v else py_return ()) (\<lambda>_.
     fmt_columns cols row))"

definition stats_query :: "string \<Rightarrow> string" where
  "stats_query full_table_name = concat
     [nl,
      ''    SELECT '', nl,
      ''        COUNT(*) as total_records,'', nl,
      ''        COUNT(DISTINCT customer_id) as unique_customers,'', nl,
      ''        COUNT(DISTINCT product_name) as unique_products,'', nl,
      ''        MIN(order_date) as earliest_order,'', nl,
      ''        MAX(order_date) as latest_order,'', nl,
      ''        SUM(total_amount) as total_revenue,'', nl,
      ''        AVG(total_amount) as avg_order_value'', nl,
      ''    FROM '', full_table_name, nl,
      ''    '']"

definition category_query :: "string \<Rightarrow> string" where
  "category_query full_table_name = concat
     [nl,
      ''    SELECT '', nl,
      ''        category,'', nl,
      ''        COUNT(*) as order_count,'', nl,
      ''        SUM(total_amount) as total_revenue,'', nl,
      ''        AVG(total_amount) as avg_order_value,'', nl,
      ''        SUM(quantity) as total_quantity'', nl,
      ''    FROM '', full_table_name, nl,
      ''    GROUP BY category'', nl,
      ''    ORDER BY total_revenue DESC'', nl,
      ''    '']"

definition regional_query :: "string \<Rightarrow> string" where
  "regional_query full_table_name = concat
     [nl,
      ''    SELECT '', nl,
      ''        region,'', nl,
      ''        COUNT(*) as order_count,'', nl,
      ''        SUM(total_amount) as total_revenue,'', nl,
      ''        AVG(total_amount) as avg_order_value,'', nl,
      ''        COUNT(DISTINCT customer_id) as unique_customers'', nl,
      ''    FROM '', full_table_name, nl,
      ''    GROUP BY region'', nl,
      ''    ORDER BY total_revenue DESC'', nl,
      ''    '']"

definition monthly_query :: "string \<Rightarrow> string" where
  "monthly_query full_table_name = concat
     [nl,
      ''    SELECT '', nl,
      ''        DATE_FORMAT(order_date, '', sq, ''%Y-%m'', sq, '') as month,'', nl,
      ''        COUNT(*) as order_count,'', nl,
      ''        SUM(total_amount) as monthly_revenue,'', nl,
      ''        AVG(total_amount) as avg_order_value'', nl,
      ''    FROM '', full_table_name, nl,
      ''    GROUP BY DATE_FORMAT(order_date, '', sq, ''%Y-%m'', sq, '')'', nl,
      ''    ORDER BY month'', nl,
      ''    '']"

definition product_query :: "string \<Rightarrow> string" where
  "product_query full_table_name = concat
     [nl,
      ''    SELECT '', nl,
      ''        product_name,'', nl,
      ''        category,'', nl,
      ''        COUNT(*) as order_count,'', nl,
      ''        SUM(quantity) as total_quantity,'', nl,
      ''        SUM(total_amount) as total_revenue,'', nl,
      ''        AVG(unit_price) as avg_price'', nl,
      ''    FROM '', full_table_name, nl,
      ''    GROUP BY product_name, category'', nl,
      ''    ORDER BY total_revenue DESC'', nl,
      ''    LIMIT 10'', nl,
      ''    '']"

definition customer_query :: "string \<Rightarrow> string" where
  "customer_query full_table_name = concat
     [nl,
      ''    SELECT '', nl,
      ''        customer_id,'', nl,
      ''        COUNT(*) as order_count,'', nl,
      ''        SUM(total_amount) as total_spent,'', nl,
      ''        AVG(total_amount) as avg_order_value,'', nl,
      ''        SUM(quantity) as total_items'', nl,
      ''    FROM '', full_table_name, nl,
      ''    GROUP BY customer_id'', nl,
      ''    ORDER BY total_spent DESC'', nl,
      ''    LIMIT 10'', nl,
      ''    '']"

text \<open>The six \<open>try\<close> statements of \<open>run_analysis_queries\<close>, each with its handler.\<close>

definition basic_stats :: "world \<Rightarrow> client \<Rightarrow> string \<Rightarrow> unit py" where
  "basic_stats w trino_client full_table_name =
     py_try
       (py_bind (client_fetchone w trino_client (stats_query full_table_name)) (\<lambda>stats.
        case stats of
          None \<Rightarrow> py_return ()
        | Some row \<Rightarrow> if truthy row then row_items row else py_return ()))
       (\<lambda>e. log_error ''Failed to get basic stats'' e)"

definition category_analysis :: "world \<Rightarrow> client \<Rightarrow> string \<Rightarrow> unit py" where
  "category_analysis w trino_client full_table_name =
     py_try
       (py_bind (client_fetchall w trino_client (category_query full_table_name))
          (for_each (fmt_columns [(''category'', False), (''total_revenue'', True),
                                  (''order_count'', False), (''avg_order_value'', True)])))
       (\<lambda>e. log_error ''Failed to get category analysis'' e)"

definition regional_analysis :: "world \<Rightarrow> client \<Rightarrow> string \<Rightarrow> unit py" where
  "regional_analysis w trino_client full_table_name =
     py_try
       (py_bind (client_fetchall w trino_client (regional_query full_table_name))
          (for_each (fmt_columns [(''region'', False), (''total_revenue'', True),
                                  (''unique_customers'', False), (''order_count'', False)])))
       (\<lambda>e. log_error ''Failed to get regional analysis'' e)"

definition monthly_analysis :: "world \<Rightarrow> client \<Rightarrow> string \<Rightarrow> unit py" where
  "monthly_analysis w trino_client full_table_name =
     py_try
       (py_bind (client_fetchall w trino_client (monthly_query full_table_name))
          (\<lambda>monthly_results.
             for_each (fmt_columns [(''month'', False), (''monthly_revenue'', True),
                                    (''order_count'', False)])
               (drop (length monthly_results - 10) monthly_results)))
       (\<lambda>e. log_error ''Failed to get monthly analysis'' e)"

definition product_analysis :: "world \<Rightarrow> client \<Rightarrow> string \<Rightarrow> unit py" where
  "product_analysis w trino_client full_table_name =
     py_try
       (py_bind (client_fetchall w trino_client (product_query full_table_name))
          (for_each (fmt_columns [(''product_name'', False), (''category'', False),
                                  (''total_revenue'', True), (''order_count'', False)])))
       (\<lambda>e. log_error ''Failed to get product analysis'' e)"

definition customer_analysis :: "world \<Rightarrow> client \<Rightarrow> string \<Rightarrow> unit py" where
  "customer_analysis w trino_client full_table_name =
     py_try
       (py_bind (client_fetchall w trino_client (customer_query full_table_name))
          (for_each (fmt_columns [(''customer_id'', False), (''total_spent'', True),
                                  (''order_count'', False), (''avg_order_value'', True)])))
       (\<lambda>e. log_error ''Failed to get customer analysis'' e)"

definition run_analysis_queries :: "world \<Rightarrow> client \<Rightarrow> string \<Rightarrow> string \<Rightarrow> unit py" where
  "run_analysis_queries w trino_client table_name schema =
     (let full_table_name = ''iceberg.'' @ schema @ ''.'' @ table_name
      in py_bind (basic_stats w trino_client full_table_name) (\<lambda>_.
         py_bind (category_analysis w trino_client full_table_name) (\<lambda>_.
         py_bind (regional_analysis w trino_client full_table_name) (\<lambda>_.
         py_bind (monthly_analysis w trino_client full_table_name) (\<lambda>_.
         py_bind (product_analysis w trino_client full_table_name) (\<lambda>_.
         customer_analysis w trino_client full_table_name))))))"

section \<open>utils/cli.py: the ingest command\<close>

text \<open>The symbols the console lines start with, as their UTF-8 bytes.\<close>

definition rocket :: string where
  "rocket = [CHR 0xF0, CHR 0x9F, CHR 0x9A, CHR 0x80]"

definition cross_mark :: string where
  "cross_mark = [CHR 0xE2, CHR 0x9D, CHR 0x8C]"

definition bar_chart :: string where
  "bar_chart = [CHR 0xF0, CHR 0x9F, CHR 0x93, CHR 0x8A]"

definition direct_hit :: string where
  "direct_hit = [CHR 0xF0, CHR 0x9F, CHR 0x8E, CHR 0xAF]"

definition warning_sign :: string where
  "warning_sign = [CHR 0xE2, CHR 0x9A, CHR 0xA0, CHR 0xEF, CHR 0xB8, CHR 0x8F]"

definition console_print :: "string \<Rightarrow> sys \<Rightarrow> sys" where
  "console_print line s = s\<lparr>trace := trace s @ [Print line]\<rparr>"

definition console_panel :: "string \<Rightarrow> sys \<Rightarrow> sys" where
  "console_panel line s = s\<lparr>trace := trace s @ [PrintPanel line]\<rparr>"

text \<open>
  An option of the command line is None when it was not given, and \<open>not x\<close> holds for
  None and for the empty string. \<open>text_of\<close> is the text an f-string puts for it.
\<close>

definition falsy :: "string option \<Rightarrow> bool" where
  "falsy x = (case x of None \<Rightarrow> True | Some v \<Rightarrow> v = [])"

definition text_of :: "string option \<Rightarrow> string" where
  "text_of x = (case x of None \<Rightarrow> ''None'' | Some v \<Rightarrow> v)"

definition ingest :: "string option \<Rightarrow> string option \<Rightarrow> sys \<Rightarrow> outcome \<times> sys" where
  "ingest source target s =
     (let s1 = console_panel (rocket @ '' Data Ingestion'') s
      in if falsy source \<or> falsy target
         then (Exited 1,
               console_print ''Example: lakehouse-ingest --source=csv --target=my_table''
                 (console_print (cross_mark @ '' Please specify both --source and --target'') s1))
         else (Returned,
               console_print (warning_sign @ ''  Ingestion functionality not yet implemented'')
                 (console_print (direct_hit @ '' Target table: '' @ text_of target)
                    (console_print (bar_chart @ '' Source format: '' @ text_of source) s1))))"

section \<open>Observations on the scripts\<close>

text \<open>The events that are a statement sent through a client object.\<close>

definition is_invoke :: "event \<Rightarrow> bool" where
  "is_invoke e = (case e of Invoke _ _ _ \<Rightarrow> True | _ \<Rightarrow> False)"

text \<open>The events that reach a service: a library call or a method of a client object.\<close>

definition is_call :: "event \<Rightarrow> bool" where
  "is_call e = (case e of Ext _ _ _ \<Rightarrow> True | Invoke _ _ _ \<Rightarrow> True | _ \<Rightarrow> False)"

text \<open>
  The slice of batch \<open>k\<close> (from 0), the number of batches, and whether the \<open>execute\<close>
  of batch \<open>k\<close> returns when the batches before it did: it is then event number
  \<open>length (trace s) + k\<close>.
\<close>

definition batch :: "order list \<Rightarrow> nat \<Rightarrow> nat \<Rightarrow> order list" where
  "batch df b k = take b (drop (k * b) df)"

definition num_batches :: "order list \<Rightarrow> nat \<Rightarrow> nat" where
  "num_batches df b = (length df + b - 1) div b"

definition accepted ::
  "world \<Rightarrow> sys \<Rightarrow> order list \<Rightarrow> string \<Rightarrow> string \<Rightarrow> nat \<Rightarrow> nat \<Rightarrow> bool" where
  "accepted w s df table_name schema b k =
     (duck_execute w (length (trace s) + k) (insert_sql w schema table_name (batch df b k)) = None)"

text \<open>Concrete inputs: three orders, and worlds whose client objects raise.\<close>

definition order1 :: order where
  "order1 = \<lparr>order_id = ''ORD-000001'', product_name = ''Laptop'', category = ''Electronics'',
     quantity = 1, unit_price = 100, region = ''US'', order_date = 19000,
     customer_id = ''CUST-0001'', total_amount = 100\<rparr>"

definition order2 :: order where
  "order2 = order1\<lparr>order_id := ''ORD-000002'', product_name := ''Mouse''\<rparr>"

definition order3 :: order where
  "order3 = order1\<lparr>order_id := ''ORD-000003'', product_name := ''Watch''\<rparr>"

definition world_execute_raises :: world where
  "world_execute_raises =
     world_all_up\<lparr>duck_execute := (\<lambda>_ sql. Some (ClientError ''execute'' sql))\<rparr>"

section \<open>Properties of clients.py\<close>

lemmas py_defs = py_return_def py_raise_def py_bind_def py_try_def ext_def set_conn_attr_def

lemmas cm_defs =
  ClientManager_trino_def ClientManager_postgres_def ClientManager_redis_def
  ClientManager_minio_def TrinoClient_init_def PostgresClient_init_def RedisClient_init_def
  MinIOClient_init_def new_client_def set_cm_trino_def set_cm_postgres_def set_cm_redis_def
  set_cm_minio_def

lemmas world_defs =
  fresh_def world_all_up_def world_no_connect_def world_no_trino_lib_def world_fail_at_def

lemma new_events_append: "trace s' = trace s @ es \<Longrightarrow> new_events s s' = es"
  by (simp add: new_events_def)

subsection \<open>MinIOClient.object_exists\<close>




subsection \<open>ClientManager.close_all\<close>

text \<open>
  C7. \<open>close_all\<close> never raises, whatever the library does when a connection is closed.
  After it all four attributes of the manager are None. What it did is: one \<open>Close\<close>
  on the connection of the cached Trino client when it had one, then one on the connection
  of the cached PostgreSQL client when it had one, and nothing else, so no call for
  Redis or MinIO. A close that returned released the connection of its client (the
  attribute is None), a close that raised left it in place.
\<close>

theorem close_all_resets_and_never_raises:
  "\<exists>s'. ClientManager_close_all w s = (Inr (), s') \<and>
     cm_trino s' = None \<and> cm_postgres s' = None \<and> cm_redis s' = None \<and> cm_minio s' = None \<and>
     new_events s s' =
       close_events w Trino (cm_trino s) s (length (trace s)) @
       close_events w Postgres (cm_postgres s) s
         (length (trace s) + length (close_events w Trino (cm_trino s) s (length (trace s)))) \<and>
     (\<forall>c h. cm_trino s = Some c \<and> conn_attr s Trino c = Some h \<longrightarrow>
        conn_attr s' Trino c =
          (if Ext Trino Close True \<in> set (new_events s s') then None else Some h)) \<and>
     (\<forall>c h. cm_postgres s = Some c \<and> conn_attr s Postgres c = Some h \<longrightarrow>
        conn_attr s' Postgres c =
          (if Ext Postgres Close True \<in> set (new_events s s') then None else Some h))"
  by (auto simp: ClientManager_close_all_def TrinoClient_close_def PostgresClient_close_def
      set_cm_trino_def set_cm_postgres_def set_cm_redis_def set_cm_minio_def py_defs Let_def
      new_events_def close_events_def split: option.splits)

lemmas eval_defs =
  ClientManager_health_check_def check_trino_def check_postgres_def check_redis_def
  check_minio_def cm_defs TrinoClient_execute_query_def TrinoClient_conn_def
  PostgresClient_execute_query_def query_body_def PostgresClient_conn_def
  RedisClient_client_def MinIOClient_client_def fetchall_def py_defs Let_def world_defs

lemma after_health_check_state:
  "cm_trino after_health_check = Some 0 \<and> conn_attr after_health_check Trino 0 = Some 1 \<and>
   cm_postgres after_health_check = Some 1 \<and> conn_attr after_health_check Postgres 1 = Some 6 \<and>
   cm_redis after_health_check = Some 2 \<and> cm_minio after_health_check = Some 3 \<and>
   length (trace after_health_check) = 19"
  by (simp add: after_health_check_def eval_defs)

text \<open>
  At a concrete input: after a health check both SQL clients are cached and connected;
  closing the Trino connection works and closing the PostgreSQL connection raises.
  \<open>close_all\<close> returns, made exactly these two calls, and both attributes of the
  manager are None; the PostgreSQL client keeps its connection.
\<close>

theorem close_all_resets_and_never_raises_witness:
  "cm_trino after_health_check = Some 0 \<and> conn_attr after_health_check Trino 0 = Some 1 \<and>
   cm_postgres after_health_check = Some 1 \<and> conn_attr after_health_check Postgres 1 = Some 6 \<and>
   fst (ClientManager_close_all (world_fail_at 20) after_health_check) = Inr () \<and>
   new_events after_health_check
     (snd (ClientManager_close_all (world_fail_at 20) after_health_check)) =
     [Ext Trino Close True, Ext Postgres Close False] \<and>
   conn_attr (snd (ClientManager_close_all (world_fail_at 20) after_health_check)) Trino 0 = None \<and>
   conn_attr (snd (ClientManager_close_all (world_fail_at 20) after_health_check)) Postgres 1 =
     Some 6 \<and>
   cm_trino (snd (ClientManager_close_all (world_fail_at 20) after_health_check)) = None \<and>
   cm_postgres (snd (ClientManager_close_all (world_fail_at 20) after_health_check)) = None"
proof -
  let ?w = "world_fail_at 20" and ?s = after_health_check
  have pre: "cm_trino ?s = Some 0" "conn_attr ?s Trino 0 = Some 1"
    "cm_postgres ?s = Some 1" "conn_attr ?s Postgres 1 = Some 6" "length (trace ?s) = 19"
    using after_health_check_state by simp_all
  obtain s' where run: "ClientManager_close_all ?w ?s = (Inr (), s')"
    and none: "cm_trino s' = None" "cm_postgres s' = None"
    and ev: "new_events ?s s' =
       close_events ?w Trino (cm_trino ?s) ?s (length (trace ?s)) @
       close_events ?w Postgres (cm_postgres ?s) ?s
         (length (trace ?s) + length (close_events ?w Trino (cm_trino ?s) ?s (length (trace ?s))))"
    and t: "\<forall>c h. cm_trino ?s = Some c \<and> conn_attr ?s Trino c = Some h \<longrightarrow>
        conn_attr s' Trino c =
          (if Ext Trino Close True \<in> set (new_events ?s s') then None else Some h)"
    and p: "\<forall>c h. cm_postgres ?s = Some c \<and> conn_attr ?s Postgres c = Some h \<longrightarrow>
        conn_attr s' Postgres c =
          (if Ext Postgres Close True \<in> set (new_events ?s s') then None else Some h)"
    using close_all_resets_and_never_raises[of ?w ?s] by blast
  have ev': "new_events ?s s' = [Ext Trino Close True, Ext Postgres Close False]"
    using ev pre by (simp add: close_events_def world_defs)
  have "conn_attr s' Trino 0 = None"
    using t pre(1,2) ev' by simp
  moreover have "conn_attr s' Postgres 1 = Some 6"
    using p pre(3,4) ev' by simp
  ultimately show ?thesis
    using run none ev' pre by simp
qed

subsection \<open>ClientManager.health_check\<close>






subsection \<open>The lazy properties of ClientManager\<close>

lemma access_cached: "slot x s = Some a \<Longrightarrow> prop_access w x s = (Inr a, s)"
  by (cases x) (auto simp: cm_defs py_defs)

lemma access_constructs:
  "slot x s = None \<Longrightarrow> lib_installed w x \<Longrightarrow>
   \<exists>s'. prop_access w x s = (Inr (next_addr s), s') \<and> slot x s' = Some (next_addr s) \<and>
        trace s' = trace s @ [Init x (next_addr s)] \<and> (\<forall>y. y \<noteq> x \<longrightarrow> slot y s' = slot y s)"
  apply (cases x)
     apply (auto simp: cm_defs py_defs Let_def)
  subgoal for y by (cases y) auto
  subgoal for y by (cases y) auto
  subgoal for y by (cases y) auto
  subgoal for y by (cases y) auto
  done

lemma access_raises:
  "slot x s = None \<Longrightarrow> \<not> lib_installed w x \<Longrightarrow>
   \<exists>s'. prop_access w x s = (Inl (ImportError x), s') \<and>
        trace s' = trace s @ [InitFailed x] \<and> (\<forall>y. slot y s' = slot y s)"
  apply (cases x)
     apply (auto simp: cm_defs py_defs Let_def)
  subgoal for y by (cases y) auto
  subgoal for y by (cases y) auto
  subgoal for y by (cases y) auto
  subgoal for y by (cases y) auto
  done

lemma access_other:
  "prop_access w x s = (r, s') \<Longrightarrow> y \<noteq> x \<Longrightarrow>
   slot y s' = slot y s \<and> (\<exists>es. trace s' = trace s @ es \<and> inits y es = [])"
  apply (cases "slot x s")
  subgoal
    using access_constructs[of x s w] access_raises[of x s w]
    by (cases "lib_installed w x") (auto simp: inits_def)
  subgoal for a
    using access_cached[of x s a w] by (auto simp: inits_def)
  done

lemma inits_append: "inits v (a @ b) = inits v a @ inits v b"
  by (simp add: inits_def)

lemma accesses_trace: "accesses w xs s = (rs, s') \<Longrightarrow> \<exists>es. trace s' = trace s @ es"
proof (induction xs arbitrary: s rs s')
  case Nil
  then show ?case by simp
next
  case (Cons x xs)
  obtain r s1 where 1: "prop_access w x s = (r, s1)" by force
  obtain rs' s2 where 2: "accesses w xs s1 = (rs', s2)" by force
  from 1 obtain e1 where "trace s1 = trace s @ e1"
    using access_constructs[of x s w] access_raises[of x s w] access_cached[of x s _ w]
    by (cases "slot x s"; cases "lib_installed w x") auto
  moreover from Cons.IH[OF 2] obtain e2 where "trace s2 = trace s1 @ e2" by blast
  ultimately show ?case using Cons.prems 1 2 by auto
qed

lemma accesses_cached:
  "slot svc s = Some a \<Longrightarrow> accesses w xs s = (rs, s') \<Longrightarrow>
   inits svc (new_events s s') = [] \<and> slot svc s' = Some a \<and>
   results_for svc xs rs = replicate (count_list xs svc) (Inr a)"
proof (induction xs arbitrary: s rs s')
  case Nil
  then show ?case by (simp add: new_events_def inits_def results_for_def)
next
  case (Cons x xs)
  obtain r s1 where 1: "prop_access w x s = (r, s1)" by force
  obtain rs' s2 where 2: "accesses w xs s1 = (rs', s2)" by force
  have eq: "rs = r # rs'" "s' = s2" using Cons.prems(2) 1 2 by auto
  show ?case
  proof (cases "x = svc")
    case True
    then have "r = Inr a" "s1 = s"
      using access_cached[of x s a w] Cons.prems(1) 1 by auto
    then show ?thesis
      using Cons.IH[of s rs' s2] Cons.prems(1) 2 eq True by (simp add: results_for_def)
  next
    case False
    from access_other[OF 1, of svc] False obtain e1
      where e1: "slot svc s1 = slot svc s" "trace s1 = trace s @ e1" "inits svc e1 = []" by auto
    from accesses_trace[OF 2] obtain e2 where e2: "trace s2 = trace s1 @ e2" by blast
    have ih: "inits svc (new_events s1 s2) = [] \<and> slot svc s2 = Some a \<and>
        results_for svc xs rs' = replicate (count_list xs svc) (Inr a)"
      using Cons.IH[of s1 rs' s2] e1 Cons.prems(1) 2 by simp
    have "new_events s1 s2 = e2" using e2 by (simp add: new_events_def)
    moreover have "new_events s s2 = e1 @ e2" using e1 e2 by (simp add: new_events_def)
    ultimately show ?thesis
      using ih e1 eq False by (simp add: inits_append results_for_def)
  qed
qed

lemma accesses_no_library:
  "slot svc s = None \<Longrightarrow> \<not> lib_installed w svc \<Longrightarrow> accesses w xs s = (rs, s') \<Longrightarrow>
   inits svc (new_events s s') = [] \<and> slot svc s' = None \<and>
   results_for svc xs rs = replicate (count_list xs svc) (Inl (ImportError svc))"
proof (induction xs arbitrary: s rs s')
  case Nil
  then show ?case by (simp add: new_events_def inits_def results_for_def)
next
  case (Cons x xs)
  obtain r s1 where 1: "prop_access w x s = (r, s1)" by force
  obtain rs' s2 where 2: "accesses w xs s1 = (rs', s2)" by force
  have eq: "rs = r # rs'" "s' = s2" using Cons.prems(3) 1 2 by auto
  from accesses_trace[OF 2] obtain e2 where e2: "trace s2 = trace s1 @ e2" by blast
  have ne: "new_events s1 s2 = e2" using e2 by (simp add: new_events_def)
  show ?case
  proof (cases "x = svc")
    case True
    then obtain s1' where "prop_access w x s = (Inl (ImportError x), s1')"
        "trace s1' = trace s @ [InitFailed x]" "\<forall>y. slot y s1' = slot y s"
      using access_raises[of x s w] Cons.prems by auto
    then have r: "r = Inl (ImportError svc)" "trace s1 = trace s @ [InitFailed x]"
        "slot svc s1 = None"
      using 1 True Cons.prems by auto
    have "new_events s s2 = [InitFailed x] @ e2" using r e2 by (simp add: new_events_def)
    then show ?thesis
      using Cons.IH[of s1 rs' s2] Cons.prems 2 eq True r ne
      by (simp add: results_for_def inits_append) (simp add: inits_def)
  next
    case False
    from access_other[OF 1, of svc] False obtain e1
      where e1: "slot svc s1 = slot svc s" "trace s1 = trace s @ e1" "inits svc e1 = []" by auto
    have "new_events s s2 = e1 @ e2" using e1 e2 by (simp add: new_events_def)
    then show ?thesis
      using Cons.IH[of s1 rs' s2] e1 Cons.prems 2 eq False ne
      by (simp add: inits_append results_for_def)
  qed
qed

lemma accesses_library:
  "slot svc s = None \<Longrightarrow> lib_installed w svc \<Longrightarrow> accesses w xs s = (rs, s') \<Longrightarrow>
   \<exists>a. inits svc (new_events s s') = (if svc \<in> set xs then [a] else []) \<and>
       slot svc s' = (if svc \<in> set xs then Some a else None) \<and>
       results_for svc xs rs = replicate (count_list xs svc) (Inr a)"
proof (induction xs arbitrary: s rs s')
  case Nil
  then show ?case by (simp add: new_events_def inits_def results_for_def)
next
  case (Cons x xs)
  obtain r s1 where 1: "prop_access w x s = (r, s1)" by force
  obtain rs' s2 where 2: "accesses w xs s1 = (rs', s2)" by force
  have eq: "rs = r # rs'" "s' = s2" using Cons.prems(3) 1 2 by auto
  from accesses_trace[OF 2] obtain e2 where e2: "trace s2 = trace s1 @ e2" by blast
  have ne: "new_events s1 s2 = e2" using e2 by (simp add: new_events_def)
  show ?case
  proof (cases "x = svc")
    case True
    then obtain s1' where "prop_access w x s = (Inr (next_addr s), s1')"
        "slot x s1' = Some (next_addr s)" "trace s1' = trace s @ [Init x (next_addr s)]"
      using access_constructs[of x s w] Cons.prems by auto
    then have r: "r = Inr (next_addr s)" "trace s1 = trace s @ [Init x (next_addr s)]"
        "slot svc s1 = Some (next_addr s)"
      using 1 True by auto
    have n: "new_events s s2 = [Init x (next_addr s)] @ e2"
      using r e2 by (simp add: new_events_def)
    have "inits svc e2 = [] \<and> slot svc s2 = Some (next_addr s) \<and>
        results_for svc xs rs' = replicate (count_list xs svc) (Inr (next_addr s))"
      using accesses_cached[OF r(3) 2] ne by simp
    then show ?thesis
      using eq True r n
      by (intro exI[of _ "next_addr s"]) (simp add: results_for_def inits_append, simp add: inits_def)
  next
    case False
    from access_other[OF 1, of svc] False obtain e1
      where e1: "slot svc s1 = slot svc s" "trace s1 = trace s @ e1" "inits svc e1 = []" by auto
    have "new_events s s2 = e1 @ e2" using e1 e2 by (simp add: new_events_def)
    then show ?thesis
      using Cons.IH[of s1 rs' s2] e1 Cons.prems 2 eq False ne
      by (simp add: inits_append results_for_def)
  qed
qed

text \<open>
  C5, as stated, fails where the library of a client is not installed: the first access
  to the property raises ImportError, constructs no client and caches nothing.
\<close>

theorem lazy_property_counterexample:
  "fst (ClientManager_trino world_no_trino_lib fresh) = Inl (ImportError Trino) \<and>
   cm_trino (snd (ClientManager_trino world_no_trino_lib fresh)) = None \<and>
   inits Trino (trace (snd (ClientManager_trino world_no_trino_lib fresh))) = []"
  by (simp add: cm_defs py_defs inits_def world_defs)

text \<open>
  C5, amended. Take a manager whose attribute for a service is None (as after
  \<open>__init__\<close> or \<open>close_all\<close>) and any run of accesses to the four properties. When the
  library of the service is installed: the run constructs a client of the service
  exactly if it accesses the property, and then exactly one; every access to the
  property returns that one object, which the attribute holds afterwards. When the
  library is not installed: every access to the property raises ImportError, no client
  is constructed and the attribute stays None. In both cases no client of the service
  is constructed by a run that does not access its property.
\<close>

theorem lazy_property_constructs_once:
  assumes "slot svc s = None" and "accesses w xs s = (rs, s')"
  shows "\<exists>a. inits svc (new_events s s') =
             (if svc \<in> set xs \<and> lib_installed w svc then [a] else []) \<and>
           slot svc s' = (if svc \<in> set xs \<and> lib_installed w svc then Some a else None) \<and>
           results_for svc xs rs =
             replicate (count_list xs svc)
               (if lib_installed w svc then Inr a else Inl (ImportError svc))"
proof (cases "lib_installed w svc")
  case True
  then show ?thesis using accesses_library[OF assms(1) True assms(2)] by auto
next
  case False
  then show ?thesis using accesses_no_library[OF assms(1) False assms(2)] by auto
qed

text \<open>
  At a concrete input: a fresh manager, everything installed, the properties read in
  the order trino, postgres, trino, minio, trino. One Trino client is constructed, at
  address 0, and the three accesses to \<open>trino\<close> return it.
\<close>

theorem lazy_property_constructs_once_witness:
  "slot Trino fresh = None \<and>
   inits Trino (new_events fresh
     (snd (accesses world_all_up [Trino, Postgres, Trino, MinIO, Trino] fresh))) = [0] \<and>
   slot Trino (snd (accesses world_all_up [Trino, Postgres, Trino, MinIO, Trino] fresh)) = Some 0 \<and>
   results_for Trino [Trino, Postgres, Trino, MinIO, Trino]
     (fst (accesses world_all_up [Trino, Postgres, Trino, MinIO, Trino] fresh)) =
     [Inr 0, Inr 0, Inr 0]"
proof -
  let ?xs = "[Trino, Postgres, Trino, MinIO, Trino]"
  let ?run = "accesses world_all_up ?xs fresh"
  have pre: "slot Trino fresh = None" by (simp add: fresh_def)
  have run: "?run = (fst ?run, snd ?run)" by simp
  have lib: "lib_installed world_all_up Trino" by (simp add: world_all_up_def)
  have first: "results_for Trino ?xs (fst ?run) = [Inr 0, Inr 0, Inr 0]"
    by (simp add: cm_defs py_defs world_defs results_for_def)
  from lazy_property_constructs_once[OF pre run] lib obtain a
    where a: "inits Trino (new_events fresh (snd ?run)) = [a]" "slot Trino (snd ?run) = Some a"
      "results_for Trino ?xs (fst ?run) = [Inr a, Inr a, Inr a]"
    by (auto simp: numeral_3_eq_3)
  have "a = 0" using a(3) first by simp
  then show ?thesis using a pre by simp
qed

subsection \<open>PostgresClient: commit and rollback\<close>











end
